theory Spec2Isabelle
  imports Complex_Main
begin

section \<open>Data model\<close>

text \<open>
  The program computes with Python floats and numpy arrays of floats. Floats are
  idealised as real numbers throughout: \<open>math.sin\<close>, \<open>math.cos\<close>, \<open>math.asin\<close>,
  \<open>numpy.tan\<close>, \<open>numpy.arccos\<close> and \<open>numpy.sqrt\<close> are the real functions of the same
  name, \<open>math.pi\<close> is \<open>pi\<close>. Rounding is not modelled.

  A vector is the three-element Python list \<open>[x, y, z]\<close>. A curve is a list of three
  numpy arrays of the same length (the x, y and z components of its sample points).
\<close>

type_synonym vec = "real \<times> real \<times> real"

type_synonym curve = "real list \<times> real list \<times> real list"

text \<open>A Python call either raises or returns a value; \<open>Inl\<close> is the raised exception.\<close>

datatype error = AssertionError

text \<open>
  The dictionary \<open>store\<close> of \<open>demo\<close> in celesph.py, restricted to the entries the
  transforms read. The two modes are Python strings.
\<close>

record store =
  obliquity :: real
  latitude :: real
  time_of_year :: real
  time_of_day :: real
  view_type :: string
  day_type :: string

section \<open>Rotation primitives\<close>

text \<open>
  \<^verbatim>\<open>
  def rotate_x(p, x):
    c, s = math.cos(p), math.sin(p)
    [x, y, z] = x
    return [x, y*c-z*s, y*s+z*c]
  \<close>
  and likewise \<open>rotate_y\<close>, \<open>rotate_z\<close>; the definitions in celesph.py and sunpath.py
  are the same text.
\<close>

definition rotate_x :: "real \<Rightarrow> vec \<Rightarrow> vec" where
  "rotate_x p v =
     (let c = cos p; s = sin p in
      case v of (x, y, z) \<Rightarrow> (x, y*c - z*s, y*s + z*c))"

definition rotate_y :: "real \<Rightarrow> vec \<Rightarrow> vec" where
  "rotate_y p v =
     (let c = cos p; s = sin p in
      case v of (x, y, z) \<Rightarrow> (z*s + x*c, y, z*c - x*s))"

definition rotate_z :: "real \<Rightarrow> vec \<Rightarrow> vec" where
  "rotate_z p v =
     (let c = cos p; s = sin p in
      case v of (x, y, z) \<Rightarrow> (x*c - y*s, x*s + y*c, z))"

text \<open>
  When the three components are numpy arrays, the arithmetic of the same function body
  is carried out element by element (the arrays at every call site have one common
  length). \<open>elementwise f\<close> is \<open>f\<close> applied to a curve in that way.
\<close>

definition elementwise :: "(vec \<Rightarrow> vec) \<Rightarrow> curve \<Rightarrow> curve" where
  "elementwise f c =
     (case c of (xs, ys, zs) \<Rightarrow>
        let ps = map f (zip xs (zip ys zs))
        in (map fst ps, map (\<lambda>v. fst (snd v)) ps, map (\<lambda>v. snd (snd v)) ps))"

text \<open>The Euclidean norm of a vector, and the three axes of the spec's \<open>rotate\<close>.\<close>

definition norm3 :: "vec \<Rightarrow> real" where
  "norm3 v = (case v of (x, y, z) \<Rightarrow> sqrt (x\<^sup>2 + y\<^sup>2 + z\<^sup>2))"

datatype axis = X | Y | Z

fun rotate_axis :: "axis \<Rightarrow> real \<Rightarrow> vec \<Rightarrow> vec" where
  "rotate_axis X p v = rotate_x p v"
| "rotate_axis Y p v = rotate_y p v"
| "rotate_axis Z p v = rotate_z p v"

section \<open>Spherical curve generators\<close>

text \<open>
  \<open>numpy.linspace(start, stop, num)\<close> is library code; it is modelled after numpy's
  implementation: no sample for \<open>num = 0\<close>, the single sample \<open>start\<close> for \<open>num = 1\<close>,
  and otherwise the samples \<open>start + k * step\<close> for \<open>k = 0, ..., num - 1\<close> with
  \<open>step = (stop - start) / (num - 1)\<close>, the last one overwritten by \<open>stop\<close>.
\<close>

definition linspace :: "real \<Rightarrow> real \<Rightarrow> nat \<Rightarrow> real list" where
  "linspace start stop num =
     (if num = 0 then []
      else if num = 1 then [start]
      else (map (\<lambda>k. start + real k * ((stop - start) / real (num - 1))) [0..<num])
             [num - 1 := stop])"

text \<open>\<open>numpy.ones_like(p)\<close>: an array of ones of the shape of \<open>p\<close>.\<close>

definition ones_like :: "real list \<Rightarrow> real list" where
  "ones_like p = map (\<lambda>_. 1) p"

text \<open>
  \<^verbatim>\<open>
  def make_meridian(p, n=100):
    q = numpy.linspace(-math.pi, math.pi, n+1)
    return [numpy.sin(q) * math.cos(p), numpy.sin(q) * math.sin(p), numpy.cos(q)]
  \<close>
  The resolution \<open>n\<close> is a natural number here (the callers pass none, so it is 100).
\<close>

definition make_meridian :: "real \<Rightarrow> nat \<Rightarrow> curve" where
  "make_meridian p n =
     (let q = linspace (- pi) pi (n + 1) in
      (map (\<lambda>q. sin q * cos p) q, map (\<lambda>q. sin q * sin p) q, map (\<lambda>q. cos q) q))"

text \<open>
  \<^verbatim>\<open>
  def make_parallel(q, n=100):
    p = numpy.linspace(-math.pi, math.pi, n+1)
    return [math.sin(q) * numpy.cos(p), math.sin(q) * numpy.sin(p),
            math.cos(q) * numpy.ones_like(p)]
  \<close>
\<close>

definition make_parallel :: "real \<Rightarrow> nat \<Rightarrow> curve" where
  "make_parallel q n =
     (let p = linspace (- pi) pi (n + 1) in
      (map (\<lambda>p. sin q * cos p) p, map (\<lambda>p. sin q * sin p) p,
       map (\<lambda>one. cos q * one) (ones_like p)))"

text \<open>
  \<^verbatim>\<open>
  def make_globe(i, j, n=100):
    assert i >= 0 and j >= 0
    result = []
    for q in numpy.linspace(0, math.pi, i*2+1)[1:-1]:
      result.append(make_parallel(q))
    for p in numpy.linspace(0, math.pi, j*2+1)[:-1]:
      result.append(make_meridian(p))
    return result
  \<close>
  The slice \<open>[1:-1]\<close> drops the first and the last element (and is empty on fewer than
  two elements), the slice \<open>[:-1]\<close> drops the last. The two sequences the loops run
  over are named; each loop appends one curve per element, at the generators' default
  resolution 100.
\<close>

definition globe_colatitudes :: "int \<Rightarrow> real list" where
  "globe_colatitudes i = butlast (tl (linspace 0 pi (nat (i * 2 + 1))))"

definition globe_longitudes :: "int \<Rightarrow> real list" where
  "globe_longitudes j = butlast (linspace 0 pi (nat (j * 2 + 1)))"

definition make_globe :: "int \<Rightarrow> int \<Rightarrow> int \<Rightarrow> error + curve list" where
  "make_globe i j n =
     (if \<not> (i \<ge> 0 \<and> j \<ge> 0) then Inl AssertionError
      else Inr (map (\<lambda>q. make_parallel q 100) (globe_colatitudes i) @
                map (\<lambda>p. make_meridian p 100) (globe_longitudes j)))"

section \<open>Astronomical formulas\<close>

text \<open>
  \<^verbatim>\<open>
  def get_sun_declination(o, t):
    return math.asin(math.cos(t)*math.sin(o))
  \<close>
  \<open>math.asin\<close> raises outside \<open>[-1, 1]\<close>; the argument is a product of a cosine and a
  sine, so it never does.
\<close>

definition get_sun_declination :: "real \<Rightarrow> real \<Rightarrow> real" where
  "get_sun_declination o' t = arcsin (cos t * sin o')"

text \<open>
  sunpath.py defines \<open>make_sun_path\<close> twice. The second definition (the closed form)
  replaces the first (the rotated parallel) when the module is loaded:
  \<^verbatim>\<open>
  def make_sun_path(o, t, l):
    d = get_sun_declination(o, t)
    return rotate_y(math.pi/2-l, make_parallel(math.pi/2-d))

  def make_sun_path(o, t, l):
    d = get_sun_declination(o, t)
    p = numpy.linspace(-math.pi, math.pi, 101)
    return [
       math.sin(l)*math.cos(d)*numpy.cos(p) + math.cos(l)*math.sin(d),
                   math.cos(d)*numpy.sin(p),
      -math.cos(l)*math.cos(d)*numpy.cos(p) + math.sin(l)*math.sin(d)]
  \<close>
\<close>

definition make_sun_path_rotated :: "real \<Rightarrow> real \<Rightarrow> real \<Rightarrow> curve" where
  "make_sun_path_rotated o' t l =
     (let d = get_sun_declination o' t in
      elementwise (rotate_y (pi/2 - l)) (make_parallel (pi/2 - d) 100))"

definition make_sun_path :: "real \<Rightarrow> real \<Rightarrow> real \<Rightarrow> curve" where
  "make_sun_path o' t l =
     (let d = get_sun_declination o' t;
          p = linspace (- pi) pi 101 in
      (map (\<lambda>p. sin l * cos d * cos p + cos l * sin d) p,
       map (\<lambda>p. cos d * sin p) p,
       map (\<lambda>p. - cos l * cos d * cos p + sin l * sin d) p))"

text \<open>\<open>numpy.clip(a, a_min, a_max)\<close> is \<open>minimum(a_max, maximum(a, a_min))\<close>.\<close>

definition clip :: "real \<Rightarrow> real \<Rightarrow> real \<Rightarrow> real" where
  "clip a a_min a_max = min a_max (max a a_min)"

text \<open>
  \<open>numpy.arctan2(y, x)\<close> on real numbers: the angle of the point \<open>(x, y)\<close> in
  \<open>(-pi, pi]\<close>, and 0 at the origin.
\<close>

definition arctan2 :: "real \<Rightarrow> real \<Rightarrow> real" where
  "arctan2 y x =
     (if 0 < x then arctan (y / x)
      else if x < 0 then (if 0 \<le> y then arctan (y / x) + pi else arctan (y / x) - pi)
      else if 0 < y then pi / 2
      else if y < 0 then - (pi / 2)
      else 0)"

text \<open>
  The two formulas below are the loop bodies of \<open>plot_insolation_variation\<close> and
  \<open>plot_sunrise_position_variation\<close> in sunpath.py, for one element \<open>d\<close> of the array
  of declinations:
  \<^verbatim>\<open>
    temp = numpy.clip(numpy.tan(l)*numpy.tan(d), -1, 1)
    temp = 1 - numpy.arccos(temp)/math.pi
  \<close>
  \<^verbatim>\<open>
    temp = numpy.clip(numpy.tan(l)*numpy.tan(d), -1, 1)
    temp = numpy.arctan2(
      numpy.sqrt(1-temp**2),
      math.sin(l)*temp + math.cos(l)*numpy.tan(d))
  \<close>
  The source gives them no name; they carry the names of the spec.
\<close>

definition sunlit_fraction :: "real \<Rightarrow> real \<Rightarrow> real" where
  "sunlit_fraction l d =
     (let temp = clip (tan l * tan d) (- 1) 1 in
      1 - arccos temp / pi)"

definition sunrise_azimuth :: "real \<Rightarrow> real \<Rightarrow> real" where
  "sunrise_azimuth l d =
     (let temp = clip (tan l * tan d) (- 1) 1 in
      arctan2 (sqrt (1 - temp\<^sup>2)) (sin l * temp + cos l * tan d))"

section \<open>Reference-frame transform pipeline\<close>

text \<open>
  \<^verbatim>\<open>
  def transform_observer_to_inertial(x):
    colatitude = math.pi/2 - store['latitude']
    x = rotate_y(colatitude, x)
    x = rotate_z(store['time_of_day'], x)
    if store['day_type'] == 'solar':
      x = rotate_z(store['time_of_year'], x)
    return x

  def transform_inertial_to_ecliptic(x):
    x = rotate_y(store['obliquity'], x)
    return x
  \<close>
  The closures read \<open>store\<close>; here it is an argument.
\<close>

definition transform_observer_to_inertial :: "store \<Rightarrow> vec \<Rightarrow> vec" where
  "transform_observer_to_inertial st x =
     (let colatitude = pi/2 - latitude st;
          x = rotate_y colatitude x;
          x = rotate_z (time_of_day st) x;
          x = (if day_type st = ''solar'' then rotate_z (time_of_year st) x else x)
      in x)"

definition transform_inertial_to_ecliptic :: "store \<Rightarrow> vec \<Rightarrow> vec" where
  "transform_inertial_to_ecliptic st x = rotate_y (obliquity st) x"

text \<open>
  \<^verbatim>\<open>
  def transform_ecliptic_to_view(x):
    if store['view_type'] == 'ecliptic':
      return x
    colatitude = math.pi/2 - store['latitude']
    x = rotate_y(-store['obliquity'], x)
    if store['view_type'] == 'equator':
      return x
    x = rotate_z(-store['time_of_day'], x)
    if store['day_type'] == 'solar':
      x = rotate_z(-store['time_of_year'], x)
    x = rotate_y(-colatitude, x)
    if store['view_type'] == 'horizon':
      return x
  \<close>
  The function has no \<open>raise\<close>. When none of the three tests succeeds, control reaches
  the end of the body and the call returns Python's \<open>None\<close>: the result is a
  \<open>vec option\<close>, and no branch of the model is an \<open>Inl\<close>.
\<close>

definition transform_ecliptic_to_view :: "store \<Rightarrow> vec \<Rightarrow> error + vec option" where
  "transform_ecliptic_to_view st x =
     (if view_type st = ''ecliptic'' then Inr (Some x)
      else
        let colatitude = pi/2 - latitude st;
            x = rotate_y (- obliquity st) x
        in if view_type st = ''equator'' then Inr (Some x)
           else
             let x = rotate_z (- time_of_day st) x;
                 x = (if day_type st = ''solar'' then rotate_z (- time_of_year st) x else x);
                 x = rotate_y (- colatitude) x
             in if view_type st = ''horizon'' then Inr (Some x)
                else Inr None)"

section \<open>Rotations are isometries\<close>

lemma rot_sq_sum:
  fixes a b :: real
  shows "(a * cos p - b * sin p)\<^sup>2 + (a * sin p + b * cos p)\<^sup>2 = a\<^sup>2 + b\<^sup>2"
proof -
  have "(a * cos p - b * sin p)\<^sup>2 + (a * sin p + b * cos p)\<^sup>2
          = a\<^sup>2 * ((sin p)\<^sup>2 + (cos p)\<^sup>2) + b\<^sup>2 * ((sin p)\<^sup>2 + (cos p)\<^sup>2)"
    unfolding power2_eq_square by (simp only: algebra_simps)
  then show ?thesis by simp
qed

text \<open>
  C8: for each of the three axes, every angle and every vector, the rotated vector has
  the Euclidean norm of the vector.
\<close>

theorem rotate_preserves_norm: "norm3 (rotate_axis ax p v) = norm3 v"
proof (cases v)
  case (fields x y z)
  have rx: "(y * cos p - z * sin p)\<^sup>2 + (y * sin p + z * cos p)\<^sup>2 = y\<^sup>2 + z\<^sup>2"
    by (rule rot_sq_sum)
  have ry: "(z * sin p + x * cos p)\<^sup>2 + (z * cos p - x * sin p)\<^sup>2 = z\<^sup>2 + x\<^sup>2"
    using rot_sq_sum [of z p x] by (simp add: add.commute)
  have rz: "(x * cos p - y * sin p)\<^sup>2 + (x * sin p + y * cos p)\<^sup>2 = x\<^sup>2 + y\<^sup>2"
    by (rule rot_sq_sum)
  show ?thesis
  proof (cases ax)
    case X
    have "x\<^sup>2 + (y * cos p - z * sin p)\<^sup>2 + (y * sin p + z * cos p)\<^sup>2 = x\<^sup>2 + y\<^sup>2 + z\<^sup>2"
      using rx by simp
    with X fields show ?thesis by (simp add: rotate_x_def norm3_def Let_def)
  next
    case Y
    have "(z * sin p + x * cos p)\<^sup>2 + y\<^sup>2 + (z * cos p - x * sin p)\<^sup>2 = x\<^sup>2 + y\<^sup>2 + z\<^sup>2"
      using ry by simp
    with Y fields show ?thesis by (simp add: rotate_y_def norm3_def Let_def)
  next
    case Z
    have "(x * cos p - y * sin p)\<^sup>2 + (x * sin p + y * cos p)\<^sup>2 + z\<^sup>2 = x\<^sup>2 + y\<^sup>2 + z\<^sup>2"
      using rz by simp
    with Z fields show ?thesis by (simp add: rotate_z_def norm3_def Let_def)
  qed
qed

section \<open>The transform pipeline\<close>

lemma rotate_y_add: "rotate_y a (rotate_y b v) = rotate_y (a + b) v"
proof (cases v)
  case (fields x y z)
  then show ?thesis
    by (simp add: rotate_y_def Let_def sin_add cos_add algebra_simps)
qed

lemma rotate_z_add: "rotate_z a (rotate_z b v) = rotate_z (a + b) v"
proof (cases v)
  case (fields x y z)
  then show ?thesis
    by (simp add: rotate_z_def Let_def sin_add cos_add algebra_simps)
qed

lemma rotate_y_zero: "rotate_y 0 v = v"
  by (cases v) (simp add: rotate_y_def)

lemma rotate_z_zero: "rotate_z 0 v = v"
  by (cases v) (simp add: rotate_z_def)

lemma rotate_y_inverse: "rotate_y (- p) (rotate_y p v) = v"
  by (simp add: rotate_y_add rotate_y_zero)

lemma rotate_z_inverse: "rotate_z (- p) (rotate_z p v) = v"
  by (simp add: rotate_z_add rotate_z_zero)

lemma horizon_undoes_observer:
  "rotate_y (- (pi/2 - l))
     (rotate_z (- ty) (rotate_z (- td) (rotate_z ty (rotate_z td (rotate_y (pi/2 - l) v))))) = v"
proof -
  have "rotate_z (- ty) (rotate_z (- td) (rotate_z ty (rotate_z td w))) = w" for w
    by (simp add: rotate_z_add rotate_z_zero)
  then show ?thesis
    by (simp only: rotate_y_inverse)
qed

text \<open>
  C2: for every store (any obliquity, latitude, times and day type) and every vector
  \<open>v\<close>: with view type \<open>horizon\<close>, observer-to-inertial, then inertial-to-ecliptic,
  then ecliptic-to-view returns \<open>v\<close>; with view type \<open>equator\<close>, inertial-to-ecliptic
  then ecliptic-to-view returns \<open>v\<close>.
\<close>

theorem round_trip:
  "(view_type st = ''horizon'' \<longrightarrow>
      transform_ecliptic_to_view st
        (transform_inertial_to_ecliptic st (transform_observer_to_inertial st v)) = Inr (Some v))
   \<and> (view_type st = ''equator'' \<longrightarrow>
      transform_ecliptic_to_view st (transform_inertial_to_ecliptic st v) = Inr (Some v))"
proof -
  have y: "rotate_y (- obliquity st) (rotate_y (obliquity st) w) = w" for w
    by (rule rotate_y_inverse)
  have solar: "rotate_y (- (pi/2 - latitude st))
     (rotate_z (- time_of_year st) (rotate_z (- time_of_day st)
        (rotate_z (time_of_year st) (rotate_z (time_of_day st)
           (rotate_y (pi/2 - latitude st) v))))) = v"
    by (rule horizon_undoes_observer)
  have sidereal: "rotate_y (- (pi/2 - latitude st))
     (rotate_z (- time_of_day st) (rotate_z (time_of_day st)
           (rotate_y (pi/2 - latitude st) v))) = v"
    by (simp only: rotate_z_inverse rotate_y_inverse)
  show ?thesis
    using solar sidereal
    by (simp add: transform_ecliptic_to_view_def transform_inertial_to_ecliptic_def
        transform_observer_to_inertial_def Let_def y del: minus_diff_eq)
qed

theorem round_trip_witness:
  "transform_ecliptic_to_view
     \<lparr>obliquity = 0, latitude = 0, time_of_year = pi, time_of_day = pi,
      view_type = ''horizon'', day_type = ''solar''\<rparr>
     (transform_inertial_to_ecliptic
        \<lparr>obliquity = 0, latitude = 0, time_of_year = pi, time_of_day = pi,
         view_type = ''horizon'', day_type = ''solar''\<rparr>
        (transform_observer_to_inertial
           \<lparr>obliquity = 0, latitude = 0, time_of_year = pi, time_of_day = pi,
            view_type = ''horizon'', day_type = ''solar''\<rparr> (1, 2, 3))) = Inr (Some (1, 2, 3))
   \<and> transform_ecliptic_to_view
     \<lparr>obliquity = 1, latitude = 0, time_of_year = 0, time_of_day = 0,
      view_type = ''equator'', day_type = ''sidereal''\<rparr>
     (transform_inertial_to_ecliptic
        \<lparr>obliquity = 1, latitude = 0, time_of_year = 0, time_of_day = 0,
         view_type = ''equator'', day_type = ''sidereal''\<rparr> (1, 2, 3)) = Inr (Some (1, 2, 3))"
  using round_trip [of "\<lparr>obliquity = 0, latitude = 0, time_of_year = pi, time_of_day = pi,
      view_type = ''horizon'', day_type = ''solar''\<rparr>" "(1, 2, 3)"]
    round_trip [of "\<lparr>obliquity = 1, latitude = 0, time_of_year = 0, time_of_day = 0,
      view_type = ''equator'', day_type = ''sidereal''\<rparr>" "(1, 2, 3)"]
  by simp

text \<open>
  C1 as the spec states it: for a view type other than \<open>ecliptic\<close>, \<open>equator\<close> and
  \<open>horizon\<close> the ecliptic-to-view transform signals an error. The code does not: the
  call returns normally (its outcome is no \<open>Inl\<close>), with the value \<open>None\<close>.
\<close>

theorem view_no_error_counterexample:
  "\<not> isl (transform_ecliptic_to_view
     \<lparr>obliquity = 0, latitude = 0, time_of_year = 0, time_of_day = 0,
      view_type = ''galactic'', day_type = ''solar''\<rparr> (1, 0, 0))"
  by (simp add: transform_ecliptic_to_view_def Let_def)

text \<open>
  C1, amended: for every vector and every store whose view type is none of \<open>ecliptic\<close>,
  \<open>equator\<close> and \<open>horizon\<close>, the ecliptic-to-view transform raises nothing and returns
  \<open>None\<close>, which is no vector (in particular not the unrotated input).
\<close>

theorem view_fallthrough:
  "view_type st \<noteq> ''ecliptic'' \<Longrightarrow> view_type st \<noteq> ''equator'' \<Longrightarrow> view_type st \<noteq> ''horizon''
     \<Longrightarrow> transform_ecliptic_to_view st v = Inr None"
  by (simp add: transform_ecliptic_to_view_def Let_def)

theorem view_fallthrough_witness:
  "transform_ecliptic_to_view
     \<lparr>obliquity = 0, latitude = 0, time_of_year = 0, time_of_day = 0,
      view_type = ''galactic'', day_type = ''solar''\<rparr> (1, 0, 0) = Inr None"
  using view_fallthrough [of "\<lparr>obliquity = 0, latitude = 0, time_of_year = 0, time_of_day = 0,
      view_type = ''galactic'', day_type = ''solar''\<rparr>" "(1, 0, 0)"]
  by simp

section \<open>Solar declination\<close>

lemma arcsin_abs_le:
  assumes "\<bar>y\<bar> \<le> \<bar>sin x\<bar>"
  shows "\<bar>arcsin y\<bar> \<le> \<bar>x\<bar>"
proof (cases "\<bar>x\<bar> \<le> pi/2")
  case True
  have s1: "\<bar>sin x\<bar> = sin \<bar>x\<bar>"
  proof (cases "0 \<le> x")
    case True
    with \<open>\<bar>x\<bar> \<le> pi/2\<close> have "0 \<le> sin x" by (intro sin_ge_zero) (auto)
    with True show ?thesis by simp
  next
    case False
    with \<open>\<bar>x\<bar> \<le> pi/2\<close> have "0 \<le> sin (- x)" by (intro sin_ge_zero) (auto)
    with False show ?thesis by simp
  qed
  have le1: "sin \<bar>x\<bar> \<le> 1" by simp
  from assms s1 have up: "y \<le> sin \<bar>x\<bar>" and lo: "- sin \<bar>x\<bar> \<le> y" by linarith+
  have "arcsin y \<le> arcsin (sin \<bar>x\<bar>)"
    using lo up le1 by (intro arcsin_le_arcsin) linarith+
  moreover have "arcsin (- sin \<bar>x\<bar>) \<le> arcsin y"
    using lo up le1 by (intro arcsin_le_arcsin) linarith+
  moreover have "arcsin (sin \<bar>x\<bar>) = \<bar>x\<bar>"
    using True by (intro arcsin_sin) linarith+
  ultimately show ?thesis by (simp add: arcsin_minus)
next
  case False
  have "\<bar>sin x\<bar> \<le> 1" by (rule abs_sin_le_one)
  with assms have "- 1 \<le> y" "y \<le> 1" by linarith+
  then have "- (pi/2) \<le> arcsin y" "arcsin y \<le> pi/2"
    using arcsin_bounded [of y] by linarith+
  with False show ?thesis by linarith
qed

text \<open>
  C4 as the spec states it: for all real \<open>o\<close> and \<open>t\<close> the declination lies in
  \<open>[-o, o]\<close>. For a negative obliquity that interval is empty; at \<open>o = -pi/2\<close>, \<open>t = 0\<close>
  the declination is \<open>-pi/2\<close>.
\<close>

theorem declination_negative_counterexample:
  "\<not> (- (- (pi/2)) \<le> get_sun_declination (- (pi/2)) 0
      \<and> get_sun_declination (- (pi/2)) 0 \<le> - (pi/2))"
  by (simp add: get_sun_declination_def arcsin_minus not_le)

text \<open>
  C4, amended: for all real \<open>o\<close> and \<open>t\<close>, the declination is
  \<open>arcsin (cos t * sin o)\<close> and lies in \<open>[-|o|, |o|]\<close>, which is \<open>[-o, o]\<close> whenever
  \<open>o\<close> is not negative.
\<close>

theorem declination_formula_bound:
  "get_sun_declination ob t = arcsin (cos t * sin ob)
   \<and> - \<bar>ob\<bar> \<le> get_sun_declination ob t \<and> get_sun_declination ob t \<le> \<bar>ob\<bar>"
proof -
  have "\<bar>cos t * sin ob\<bar> = \<bar>cos t\<bar> * \<bar>sin ob\<bar>" by (rule abs_mult)
  also have "\<dots> \<le> 1 * \<bar>sin ob\<bar>"
    by (intro mult_right_mono) (simp_all add: abs_cos_le_one)
  finally have "\<bar>cos t * sin ob\<bar> \<le> \<bar>sin ob\<bar>" by simp
  then have "\<bar>arcsin (cos t * sin ob)\<bar> \<le> \<bar>ob\<bar>" by (rule arcsin_abs_le)
  then show ?thesis by (simp add: get_sun_declination_def abs_le_iff)
qed

text \<open>
  C9 as the spec states it: for every real \<open>o\<close> the declination at \<open>t = 0\<close> is \<open>o\<close>.
  The arcsine returns values in \<open>[-pi/2, pi/2]\<close> only; at \<open>o = pi\<close> the declination
  is 0.
\<close>

theorem declination_pi_counterexample:
  "get_sun_declination pi 0 \<noteq> pi"
  by (simp add: get_sun_declination_def)

text \<open>
  C9, amended: for every real \<open>o\<close> with \<open>-pi/2 \<le> o \<le> pi/2\<close>, the declination at
  \<open>t = 0\<close> is \<open>o\<close> and at \<open>t = pi\<close> is \<open>-o\<close>; for every real \<open>o\<close>, the declination
  at \<open>t = pi/2\<close> is 0.
\<close>

theorem declination_solstice_equinox:
  "(- (pi/2) \<le> ob \<and> ob \<le> pi/2 \<longrightarrow>
      get_sun_declination ob 0 = ob \<and> get_sun_declination ob pi = - ob)
   \<and> get_sun_declination ob (pi/2) = 0"
  by (simp add: get_sun_declination_def arcsin_minus arcsin_sin)

theorem declination_solstice_equinox_witness:
  "- (pi/2) \<le> pi/4 \<and> pi/4 \<le> pi/2
   \<and> get_sun_declination (pi/4) 0 = pi/4 \<and> get_sun_declination (pi/4) pi = - (pi/4)
   \<and> get_sun_declination (pi/4) (pi/2) = 0"
  using declination_solstice_equinox [of "pi/4"] by simp

section \<open>Sunlit fraction and sunrise azimuth\<close>

lemma clip_bounds: "- 1 \<le> clip a (- 1) 1 \<and> clip a (- 1) 1 \<le> 1"
  by (simp add: clip_def min_def max_def)

lemma tan_pos_iff_acute:
  assumes "\<bar>x\<bar> < pi/2"
  shows "(0 < x \<longrightarrow> 0 < tan x) \<and> (x < 0 \<longrightarrow> tan x < 0)"
  using assms tan_gt_zero [of x] tan_less_zero [of x] by (auto simp: abs_less_iff)

lemma arctan2_upper_half:
  assumes "0 \<le> y"
  shows "0 \<le> arctan2 y x \<and> arctan2 y x \<le> pi"
proof -
  consider "0 < x" | "x < 0" | "x = 0" by linarith
  then show ?thesis
  proof cases
    case 1
    with assms have "0 \<le> y / x" by simp
    then have "0 \<le> arctan (y / x)" by simp
    moreover have "arctan (y / x) < pi/2" by (rule arctan_ubound)
    ultimately have "0 \<le> arctan (y / x) \<and> arctan (y / x) \<le> pi"
      using pi_gt_zero by linarith
    with 1 show ?thesis by (simp add: arctan2_def)
  next
    case 2
    with assms have "y / x \<le> 0" by (simp add: divide_nonneg_neg)
    then have "arctan (y / x) \<le> 0" by simp
    moreover have "- (pi/2) < arctan (y / x)" by (rule arctan_lbound)
    ultimately have "0 \<le> arctan (y / x) + pi \<and> arctan (y / x) + pi \<le> pi"
      using pi_gt_zero by linarith
    with 2 assms show ?thesis by (simp add: arctan2_def)
  next
    case 3
    with assms show ?thesis by (simp add: arctan2_def)
  qed
qed

text \<open>
  C6: the sunlit fraction is \<open>1 - arccos (clip (tan l * tan d) (-1) 1) / pi\<close>. For
  \<open>|l| < pi/2\<close> and \<open>|d| < pi/2\<close> with \<open>|tan l * tan d| \<ge> 1\<close>, it is exactly 1 when \<open>l\<close>
  and \<open>d\<close> have the same sign (polar day) and exactly 0 when they have opposite signs
  (polar night).
\<close>

theorem sunlit_fraction_saturates:
  "sunlit_fraction l d = 1 - arccos (clip (tan l * tan d) (- 1) 1) / pi
   \<and> (\<bar>l\<bar> < pi/2 \<and> \<bar>d\<bar> < pi/2 \<and> (0 < l \<and> 0 < d \<or> l < 0 \<and> d < 0) \<and> 1 \<le> \<bar>tan l * tan d\<bar>
        \<longrightarrow> sunlit_fraction l d = 1)
   \<and> (\<bar>l\<bar> < pi/2 \<and> \<bar>d\<bar> < pi/2 \<and> (0 < l \<and> d < 0 \<or> l < 0 \<and> 0 < d) \<and> 1 \<le> \<bar>tan l * tan d\<bar>
        \<longrightarrow> sunlit_fraction l d = 0)"
proof (intro conjI impI)
  show "sunlit_fraction l d = 1 - arccos (clip (tan l * tan d) (- 1) 1) / pi"
    by (simp add: sunlit_fraction_def)
next
  assume h: "\<bar>l\<bar> < pi/2 \<and> \<bar>d\<bar> < pi/2 \<and> (0 < l \<and> 0 < d \<or> l < 0 \<and> d < 0) \<and> 1 \<le> \<bar>tan l * tan d\<bar>"
  then have "0 < tan l * tan d"
    using tan_pos_iff_acute [of l] tan_pos_iff_acute [of d]
    by (auto simp: zero_less_mult_iff)
  with h have "1 \<le> tan l * tan d" by simp
  then have "clip (tan l * tan d) (- 1) 1 = 1"
    by (simp add: clip_def min_def max_def)
  then show "sunlit_fraction l d = 1"
    by (simp add: sunlit_fraction_def)
next
  assume h: "\<bar>l\<bar> < pi/2 \<and> \<bar>d\<bar> < pi/2 \<and> (0 < l \<and> d < 0 \<or> l < 0 \<and> 0 < d) \<and> 1 \<le> \<bar>tan l * tan d\<bar>"
  then have "tan l * tan d < 0"
    using tan_pos_iff_acute [of l] tan_pos_iff_acute [of d]
    by (auto simp: mult_less_0_iff)
  with h have "tan l * tan d \<le> - 1" by simp
  then have "clip (tan l * tan d) (- 1) 1 = - 1"
    by (simp add: clip_def min_def max_def)
  then show "sunlit_fraction l d = 0"
    by (simp add: sunlit_fraction_def)
qed

theorem sunlit_fraction_saturates_witness:
  "\<bar>pi/4\<bar> < pi/2 \<and> 1 \<le> \<bar>tan (pi/4) * tan (pi/4)\<bar> \<and> sunlit_fraction (pi/4) (pi/4) = 1
   \<and> \<bar>- (pi/4)\<bar> < pi/2 \<and> 1 \<le> \<bar>tan (pi/4) * tan (- (pi/4))\<bar>
   \<and> sunlit_fraction (pi/4) (- (pi/4)) = 0"
proof -
  have day: "\<bar>pi/4\<bar> < pi/2 \<and> \<bar>pi/4\<bar> < pi/2 \<and> (0 < pi/4 \<and> 0 < pi/4 \<or> pi/4 < 0 \<and> pi/4 < 0)
      \<and> 1 \<le> \<bar>tan (pi/4) * tan (pi/4)\<bar>"
    by (simp add: tan_45)
  have night: "\<bar>pi/4\<bar> < pi/2 \<and> \<bar>- (pi/4)\<bar> < pi/2
      \<and> (0 < pi/4 \<and> - (pi/4) < 0 \<or> pi/4 < 0 \<and> 0 < - (pi/4))
      \<and> 1 \<le> \<bar>tan (pi/4) * tan (- (pi/4))\<bar>"
    by (simp add: tan_45)
  have "sunlit_fraction (pi/4) (pi/4) = 1"
    using sunlit_fraction_saturates [of "pi/4" "pi/4"] day by blast
  moreover have "sunlit_fraction (pi/4) (- (pi/4)) = 0"
    using sunlit_fraction_saturates [of "pi/4" "- (pi/4)"] night by blast
  ultimately show ?thesis using day night by blast
qed

text \<open>
  C7: for every latitude \<open>l\<close> and declination \<open>d\<close>, the sunrise azimuth is
  \<open>arctan2 (sqrt (1 - f\<^sup>2)) (sin l * f + cos l * tan d)\<close> with
  \<open>f = clip (tan l * tan d) (-1) 1\<close>, and lies in the closed interval \<open>[0, pi]\<close>.
\<close>

theorem sunrise_azimuth_range:
  "sunrise_azimuth l d =
     arctan2 (sqrt (1 - (clip (tan l * tan d) (- 1) 1)\<^sup>2))
             (sin l * clip (tan l * tan d) (- 1) 1 + cos l * tan d)
   \<and> 0 \<le> sunrise_azimuth l d \<and> sunrise_azimuth l d \<le> pi"
proof -
  let ?f = "clip (tan l * tan d) (- 1) 1"
  have "\<bar>?f\<bar> \<le> 1" using clip_bounds [of "tan l * tan d"] by (simp add: abs_le_iff) 
  then have "?f\<^sup>2 \<le> 1" by (simp add: abs_square_le_1)
  then have "0 \<le> sqrt (1 - ?f\<^sup>2)" by simp
  then show ?thesis
    using arctan2_upper_half [of "sqrt (1 - ?f\<^sup>2)" "sin l * ?f + cos l * tan d"]
    by (simp add: sunrise_azimuth_def Let_def)
qed

section \<open>The globe\<close>

lemma length_linspace: "length (linspace a b n) = n"
  by (simp add: linspace_def)

lemma linspace_nth:
  assumes "k < n"
  shows "linspace a b n ! k = a + real k * ((b - a) / real (n - 1))"
proof (cases "n = 1")
  case True
  with assms show ?thesis by (simp add: linspace_def)
next
  case False
  with assms have n: "2 \<le> n" by simp
  show ?thesis
  proof (cases "k = n - 1")
    case True
    have "real (n - 1) * ((b - a) / real (n - 1)) = b - a"
      using n by simp
    then have "a + real (n - 1) * ((b - a) / real (n - 1)) = b" by simp
    with True assms n show ?thesis by (simp add: linspace_def)
  next
    case False
    with assms n show ?thesis by (simp add: linspace_def)
  qed
qed

lemma length_globe_colatitudes: "0 \<le> i \<Longrightarrow> int (length (globe_colatitudes i)) = max (2 * i - 1) 0"
  by (simp add: globe_colatitudes_def length_linspace)

lemma length_globe_longitudes: "0 \<le> j \<Longrightarrow> int (length (globe_longitudes j)) = 2 * j"
  by (simp add: globe_longitudes_def length_linspace)

lemma globe_colatitudes_nth:
  assumes "k < length (globe_colatitudes i)"
  shows "globe_colatitudes i ! k = real (k + 1) * (pi / real_of_int (2 * i))"
proof -
  let ?xs = "linspace 0 pi (nat (i * 2 + 1))"
  from assms have k: "k + 2 < nat (i * 2 + 1)"
    by (simp add: globe_colatitudes_def length_linspace)
  then have i: "1 \<le> i" by linarith
  have "globe_colatitudes i ! k = tl ?xs ! k"
    using assms unfolding globe_colatitudes_def by (rule nth_butlast)
  also have "\<dots> = ?xs ! Suc k"
    using k by (intro nth_tl) (simp add: length_linspace)
  also have "\<dots> = 0 + real (Suc k) * ((pi - 0) / real (nat (i * 2 + 1) - 1))"
    using k by (intro linspace_nth) simp
  also have "real (nat (i * 2 + 1) - 1) = real_of_int (2 * i)"
    using i by (simp add: nat_diff_distrib' algebra_simps)
  finally show ?thesis by simp
qed

lemma globe_longitudes_nth:
  assumes "k < length (globe_longitudes j)"
  shows "globe_longitudes j ! k = real k * (pi / real_of_int (2 * j))"
proof -
  let ?xs = "linspace 0 pi (nat (j * 2 + 1))"
  from assms have k: "k + 1 < nat (j * 2 + 1)"
    by (simp add: globe_longitudes_def length_linspace)
  then have j: "1 \<le> j" by linarith
  have "globe_longitudes j ! k = ?xs ! k"
    using assms unfolding globe_longitudes_def by (rule nth_butlast)
  also have "\<dots> = 0 + real k * ((pi - 0) / real (nat (j * 2 + 1) - 1))"
    using k by (intro linspace_nth) simp
  also have "real (nat (j * 2 + 1) - 1) = real_of_int (2 * j)"
    using j by (simp add: nat_diff_distrib' algebra_simps)
  finally show ?thesis by simp
qed

lemma globe_colatitudes_inside:
  assumes "k < length (globe_colatitudes i)"
  shows "0 < globe_colatitudes i ! k \<and> globe_colatitudes i ! k < pi"
proof -
  from assms have k: "k + 2 < nat (i * 2 + 1)"
    by (simp add: globe_colatitudes_def length_linspace)
  then have i: "1 \<le> i" by linarith
  from k have lt: "real (k + 1) < real_of_int (2 * i)" by linarith
  have pos: "0 < real_of_int (2 * i)" using i by simp
  have eq: "globe_colatitudes i ! k = real (k + 1) * pi / real_of_int (2 * i)"
    using globe_colatitudes_nth [OF assms] by simp
  have "0 < real (k + 1) * pi / real_of_int (2 * i)"
    using pos by (intro divide_pos_pos mult_pos_pos) simp_all
  moreover have "real (k + 1) * pi < real_of_int (2 * i) * pi"
    using lt by (intro mult_strict_right_mono) simp_all
  then have "real (k + 1) * pi / real_of_int (2 * i) < pi"
    using pos by (simp add: pos_divide_less_eq mult.commute)
  ultimately show ?thesis using eq by simp
qed

lemma globe_longitudes_inside:
  assumes "k < length (globe_longitudes j)"
  shows "0 \<le> globe_longitudes j ! k \<and> globe_longitudes j ! k < pi"
proof -
  from assms have k: "k + 1 < nat (j * 2 + 1)"
    by (simp add: globe_longitudes_def length_linspace)
  then have j: "1 \<le> j" by linarith
  from k have lt: "real k < real_of_int (2 * j)" by linarith
  have pos: "0 < real_of_int (2 * j)" using j by simp
  have eq: "globe_longitudes j ! k = real k * pi / real_of_int (2 * j)"
    using globe_longitudes_nth [OF assms] by simp
  have "0 \<le> real k * pi / real_of_int (2 * j)"
    using pos by (intro divide_nonneg_pos mult_nonneg_nonneg) simp_all
  moreover have "real k * pi < real_of_int (2 * j) * pi"
    using lt by (intro mult_strict_right_mono) simp_all
  then have "real k * pi / real_of_int (2 * j) < pi"
    using pos by (simp add: pos_divide_less_eq mult.commute)
  ultimately show ?thesis using eq by simp
qed

lemma distinct_globe_longitudes: "distinct (globe_longitudes j)"
proof -
  have "globe_longitudes j ! a \<noteq> globe_longitudes j ! b"
    if a: "a < length (globe_longitudes j)" and b: "b < length (globe_longitudes j)"
      and ab: "a \<noteq> b" for a b
  proof -
    from a have "a + 1 < nat (j * 2 + 1)"
      by (simp add: globe_longitudes_def length_linspace)
    then have "0 < real_of_int (2 * j)" by simp
    then have "pi / real_of_int (2 * j) \<noteq> 0" by simp
    with ab have "real a * (pi / real_of_int (2 * j)) \<noteq> real b * (pi / real_of_int (2 * j))"
      by simp
    then show ?thesis
      by (simp only: globe_longitudes_nth [OF a] globe_longitudes_nth [OF b] not_False_eq_True)
  qed
  then show ?thesis by (simp add: distinct_conv_nth)
qed

lemma make_parallel_lengths:
  "case make_parallel q n of (xs, ys, zs) \<Rightarrow>
     length xs = n + 1 \<and> length ys = n + 1 \<and> length zs = n + 1"
  by (simp add: make_parallel_def Let_def ones_like_def length_linspace)

lemma make_meridian_lengths:
  "case make_meridian p n of (xs, ys, zs) \<Rightarrow>
     length xs = n + 1 \<and> length ys = n + 1 \<and> length zs = n + 1"
  by (simp add: make_meridian_def Let_def length_linspace)

text \<open>
  C5 as the spec states it: for every \<open>i \<ge> 0\<close> the globe has exactly \<open>2 * i - 1\<close>
  parallels. At \<open>i = 0\<close> that number is \<open>-1\<close>; the code returns no parallel there
  (\<open>linspace\<close> yields the single sample 0, and the slice \<open>[1:-1]\<close> of it is empty).
\<close>

theorem globe_no_parallels_counterexample:
  "make_globe 0 0 100 = Inr [] \<and> int (length (globe_colatitudes 0)) \<noteq> 2 * 0 - 1"
  by (simp add: make_globe_def globe_colatitudes_def globe_longitudes_def linspace_def)

text \<open>
  C5, amended: for every \<open>i \<ge> 0\<close> and \<open>j \<ge> 0\<close>, \<open>make_globe i j n\<close> returns
  \<open>max (2 * i - 1) 0\<close> parallels (that is \<open>2 * i - 1\<close> for \<open>i \<ge> 1\<close> and none for
  \<open>i = 0\<close>) at the colatitudes \<open>(k + 1) * pi / (2 * i)\<close>, all strictly between 0 and
  \<open>pi\<close>, followed by \<open>2 * j\<close> meridians at the longitudes \<open>k * pi / (2 * j)\<close>, all in
  \<open>[0, pi)\<close> and pairwise different; \<open>make_globe 3 3\<close> returns 5 parallels and 6
  meridians, 11 curves; a negative \<open>i\<close> or \<open>j\<close> raises \<open>AssertionError\<close>.
\<close>

theorem globe_grid:
  "(0 \<le> i \<and> 0 \<le> j \<longrightarrow>
      make_globe i j n =
        Inr (map (\<lambda>q. make_parallel q 100) (globe_colatitudes i) @
             map (\<lambda>p. make_meridian p 100) (globe_longitudes j))
      \<and> int (length (globe_colatitudes i)) = max (2 * i - 1) 0
      \<and> (\<forall>k < length (globe_colatitudes i).
            globe_colatitudes i ! k = real (k + 1) * (pi / real_of_int (2 * i))
            \<and> 0 < globe_colatitudes i ! k \<and> globe_colatitudes i ! k < pi)
      \<and> int (length (globe_longitudes j)) = 2 * j
      \<and> (\<forall>k < length (globe_longitudes j).
            globe_longitudes j ! k = real k * (pi / real_of_int (2 * j))
            \<and> 0 \<le> globe_longitudes j ! k \<and> globe_longitudes j ! k < pi)
      \<and> distinct (globe_longitudes j))
   \<and> (i < 0 \<or> j < 0 \<longrightarrow> make_globe i j n = Inl AssertionError)
   \<and> (length (globe_colatitudes 3) = 5 \<and> length (globe_longitudes 3) = 6
      \<and> (\<exists>cs. make_globe 3 3 n = Inr cs \<and> length cs = 11))"
proof -
  have mk: "0 \<le> i \<and> 0 \<le> j \<longrightarrow> make_globe i j n =
        Inr (map (\<lambda>q. make_parallel q 100) (globe_colatitudes i) @
             map (\<lambda>p. make_meridian p 100) (globe_longitudes j))"
    by (simp add: make_globe_def)
  have lc: "0 \<le> i \<and> 0 \<le> j \<longrightarrow> int (length (globe_colatitudes i)) = max (2 * i - 1) 0"
    using length_globe_colatitudes [of i] by blast
  have ll: "0 \<le> i \<and> 0 \<le> j \<longrightarrow> int (length (globe_longitudes j)) = 2 * j"
    using length_globe_longitudes [of j] by blast
  have c: "\<forall>k < length (globe_colatitudes i).
            globe_colatitudes i ! k = real (k + 1) * (pi / real_of_int (2 * i))
            \<and> 0 < globe_colatitudes i ! k \<and> globe_colatitudes i ! k < pi"
    using globe_colatitudes_nth [of _ i] globe_colatitudes_inside [of _ i] by blast
  have l: "\<forall>k < length (globe_longitudes j).
            globe_longitudes j ! k = real k * (pi / real_of_int (2 * j))
            \<and> 0 \<le> globe_longitudes j ! k \<and> globe_longitudes j ! k < pi"
    using globe_longitudes_nth [of _ j] globe_longitudes_inside [of _ j] by blast
  have d: "distinct (globe_longitudes j)"
    by (rule distinct_globe_longitudes)
  have neg: "i < 0 \<or> j < 0 \<longrightarrow> make_globe i j n = Inl AssertionError"
    by (auto simp: make_globe_def)
  have c3: "length (globe_colatitudes 3) = 5"
    by (simp add: globe_colatitudes_def length_linspace)
  have l3: "length (globe_longitudes 3) = 6"
    by (simp add: globe_longitudes_def length_linspace)
  have g3: "\<exists>cs. make_globe 3 3 n = Inr cs \<and> length cs = 11"
    using c3 l3 by (simp add: make_globe_def)
  from mk lc ll c l d neg c3 l3 g3 show ?thesis by blast
qed

theorem globe_grid_witness:
  "(\<exists>cs. make_globe 3 3 100 = Inr cs \<and> length cs = 11)
   \<and> int (length (globe_colatitudes 3)) = 5
   \<and> globe_colatitudes 3 ! 0 = pi / 6 \<and> globe_colatitudes 3 ! 4 = 5 * (pi / 6)
   \<and> int (length (globe_longitudes 3)) = 6
   \<and> globe_longitudes 3 ! 0 = 0 \<and> globe_longitudes 3 ! 5 = 5 * (pi / 6)
   \<and> make_globe (- 1) 3 100 = Inl AssertionError"
proof -
  note g = globe_grid [of 3 3 100]
  have h: "(0::int) \<le> 3 \<and> (0::int) \<le> 3" by simp
  have lc: "length (globe_colatitudes 3) = 5" and ll: "length (globe_longitudes 3) = 6"
    using g by blast+
  have c: "\<forall>k < length (globe_colatitudes 3).
            globe_colatitudes 3 ! k = real (k + 1) * (pi / real_of_int (2 * 3))
            \<and> 0 < globe_colatitudes 3 ! k \<and> globe_colatitudes 3 ! k < pi"
    using g h by blast
  have l: "\<forall>k < length (globe_longitudes 3).
            globe_longitudes 3 ! k = real k * (pi / real_of_int (2 * 3))
            \<and> 0 \<le> globe_longitudes 3 ! k \<and> globe_longitudes 3 ! k < pi"
    using g h by blast
  have c0: "globe_colatitudes 3 ! 0 = pi / 6"
    using c [THEN spec, of 0] lc by simp
  have c4: "globe_colatitudes 3 ! 4 = 5 * (pi / 6)"
    using c [THEN spec, of 4] lc by simp
  have l0: "globe_longitudes 3 ! 0 = 0"
    using l [THEN spec, of 0] ll by simp
  have l5: "globe_longitudes 3 ! 5 = 5 * (pi / 6)"
    using l [THEN spec, of 5] ll by simp
  have neg: "make_globe (- 1) 3 100 = Inl AssertionError"
    using globe_grid [of "- 1" 3 100] by simp
  have ex: "\<exists>cs. make_globe 3 3 100 = Inr cs \<and> length cs = 11"
    using g by blast
  show ?thesis using ex lc c0 c4 ll l0 l5 neg by simp
qed

text \<open>
  C10: for every \<open>i \<ge> 1\<close>, \<open>j \<ge> 1\<close> and every \<open>n\<close>, the generators are called at
  resolution 100 whatever \<open>n\<close> is, the result does not depend on \<open>n\<close>, and each curve
  of the result has exactly 101 sample points in each of its three components.
\<close>

theorem globe_resolution_fixed:
  "1 \<le> i \<and> 1 \<le> j \<longrightarrow>
     make_globe i j n =
        Inr (map (\<lambda>q. make_parallel q 100) (globe_colatitudes i) @
             map (\<lambda>p. make_meridian p 100) (globe_longitudes j))
     \<and> make_globe i j n = make_globe i j n'
     \<and> (\<exists>cs. make_globe i j n = Inr cs \<and> cs \<noteq> [] \<and>
           (\<forall>c \<in> set cs. case c of (xs, ys, zs) \<Rightarrow>
               length xs = 101 \<and> length ys = 101 \<and> length zs = 101))"
proof (intro impI)
  assume ij: "1 \<le> i \<and> 1 \<le> j"
  let ?cs = "map (\<lambda>q. make_parallel q 100) (globe_colatitudes i) @
             map (\<lambda>p. make_meridian p 100) (globe_longitudes j)"
  have eq: "make_globe i j m = Inr ?cs" for m
    using ij by (simp add: make_globe_def)
  have "int (length (globe_longitudes j)) = 2 * j"
    using ij by (intro length_globe_longitudes) simp
  with ij have "globe_longitudes j \<noteq> []" by auto
  then have ne: "?cs \<noteq> []" by simp
  have all: "\<forall>c \<in> set ?cs. case c of (xs, ys, zs) \<Rightarrow>
               length xs = 101 \<and> length ys = 101 \<and> length zs = 101"
  proof
    fix c
    assume "c \<in> set ?cs"
    then consider q where "c = make_parallel q 100" | p where "c = make_meridian p 100"
      by auto
    then show "case c of (xs, ys, zs) \<Rightarrow>
               length xs = 101 \<and> length ys = 101 \<and> length zs = 101"
    proof cases
      case 1
      then show ?thesis using make_parallel_lengths [where n = 100 and q = q] by simp
    next
      case 2
      then show ?thesis using make_meridian_lengths [where n = 100 and p = p] by simp
    qed
  qed
  show "make_globe i j n = Inr ?cs \<and> make_globe i j n = make_globe i j n'
     \<and> (\<exists>cs. make_globe i j n = Inr cs \<and> cs \<noteq> [] \<and>
           (\<forall>c \<in> set cs. case c of (xs, ys, zs) \<Rightarrow>
               length xs = 101 \<and> length ys = 101 \<and> length zs = 101))"
    using eq ne all by auto
qed

theorem globe_resolution_fixed_witness:
  "make_globe 1 1 7 = make_globe 1 1 100
   \<and> (\<exists>cs. make_globe 1 1 7 = Inr cs \<and> cs \<noteq> [] \<and>
           (\<forall>c \<in> set cs. case c of (xs, ys, zs) \<Rightarrow>
               length xs = 101 \<and> length ys = 101 \<and> length zs = 101))"
proof -
  have h: "(1::int) \<le> 1 \<and> (1::int) \<le> 1" by simp
  from globe_resolution_fixed [of 1 1 7 100] h show ?thesis by blast
qed

section \<open>The sun path\<close>

lemma elementwise_map:
  "elementwise f (map a ps, map b ps, map c ps) =
     (map (\<lambda>p. fst (f (a p, b p, c p))) ps,
      map (\<lambda>p. fst (snd (f (a p, b p, c p)))) ps,
      map (\<lambda>p. snd (snd (f (a p, b p, c p)))) ps)"
proof -
  have "zip (map a ps) (zip (map b ps) (map c ps)) = map (\<lambda>p. (a p, b p, c p)) ps"
    by (induction ps) simp_all
  then show ?thesis by (simp add: elementwise_def Let_def comp_def)
qed

lemma sun_path_rotated_eq: "make_sun_path_rotated ob t l = make_sun_path ob t l"
proof -
  let ?d = "get_sun_declination ob t"
  let ?p = "linspace (- pi) pi 101"
  have par: "make_parallel (pi/2 - ?d) 100 =
      (map (\<lambda>p. cos ?d * cos p) ?p, map (\<lambda>p. cos ?d * sin p) ?p, map (\<lambda>p. sin ?d) ?p)"
    by (simp add: make_parallel_def Let_def ones_like_def sin_diff cos_diff comp_def)
  show ?thesis
    unfolding make_sun_path_rotated_def make_sun_path_def Let_def par elementwise_map
    by (simp add: rotate_y_def Let_def sin_diff cos_diff algebra_simps)
qed

text \<open>
  C3: for every obliquity, time of year and latitude, with \<open>d\<close> the declination, the
  closed-form \<open>make_sun_path\<close> is the same point sequence as the rotated parallel
  \<open>rotate_y (pi/2 - l) (make_parallel (pi/2 - d))\<close>, it has 101 points, and its
  \<open>k\<close>-th point, at the parameter value \<open>p = -pi + k * 2 * pi / 100\<close>, is
  \<open>x = sin l * cos d * cos p + cos l * sin d\<close>, \<open>y = cos d * sin p\<close>,
  \<open>z = - cos l * cos d * cos p + sin l * sin d\<close>.
\<close>

theorem sun_path_closed_form:
  "make_sun_path ob t l = make_sun_path_rotated ob t l
   \<and> (case make_sun_path ob t l of (xs, ys, zs) \<Rightarrow>
        length xs = 101 \<and> length ys = 101 \<and> length zs = 101
        \<and> (\<forall>k < 101.
             let d = get_sun_declination ob t;
                 p = linspace (- pi) pi 101 ! k
             in p = - pi + real k * (2 * pi / 100)
                \<and> xs ! k = sin l * cos d * cos p + cos l * sin d
                \<and> ys ! k = cos d * sin p
                \<and> zs ! k = - cos l * cos d * cos p + sin l * sin d))"
proof -
  have p: "linspace (- pi) pi 101 ! k = - pi + real k * (2 * pi / 100)" if "k < 101" for k
    using linspace_nth [OF that, of "- pi" pi] by simp
  show ?thesis
    by (simp add: sun_path_rotated_eq)
       (simp add: make_sun_path_def Let_def length_linspace p)
qed

theorem sun_path_closed_form_witness:
  "(case make_sun_path 0 0 0 of (xs, ys, zs) \<Rightarrow> xs ! 0 = 0 \<and> ys ! 0 = 0 \<and> zs ! 0 = 1)"
proof -
  have d: "get_sun_declination 0 0 = 0" by (simp add: get_sun_declination_def)
  obtain xs ys zs where m: "make_sun_path 0 0 0 = (xs, ys, zs)"
    by (cases "make_sun_path 0 0 0") 
  from sun_path_closed_form [of 0 0 0] m
  have "\<forall>k < 101.
             let d = get_sun_declination 0 0;
                 p = linspace (- pi) pi 101 ! k
             in p = - pi + real k * (2 * pi / 100)
                \<and> xs ! k = sin 0 * cos d * cos p + cos 0 * sin d
                \<and> ys ! k = cos d * sin p
                \<and> zs ! k = - cos 0 * cos d * cos p + sin 0 * sin d"
    by simp
  from this [THEN spec, of 0] d have "xs ! 0 = 0 \<and> ys ! 0 = 0 \<and> zs ! 0 = 1"
    by (simp add: Let_def)
  with m show ?thesis by simp
qed

end
